theory Spec2Isabelle
  imports Complex_Main
begin

section \<open>Data model of \<^verbatim>\<open>src/GUI/TranscriptionSystem.tsx\<close>\<close>

text \<open>
  The component keeps its data in React state variables (\<^verbatim>\<open>useState\<close>) and refs
  (\<^verbatim>\<open>useRef\<close>), and acts on the browser: sockets, timers, the capture device, the
  audio element, toasts, HTTP requests. The model is one record holding both, and every
  handler of the component is a function from that record to the updated record.
\<close>

datatype TranscriptType = Unrevised | Revised | Voice

datatype ConnectionStatus = Connected | Connecting | Disconnected | Polling

subsection \<open>JavaScript values that come out of \<^verbatim>\<open>JSON.parse\<close>\<close>

text \<open>
  \<open>JNum\<close> holds the value of the number; only whether it is zero matters below.
  \<open>JObj\<close> holds each key once (\<^verbatim>\<open>JSON.parse\<close> keeps the last duplicate).
  A \<open>jsval\<close> is a JSON value or \<^verbatim>\<open>undefined\<close> (\<open>None\<close>).
\<close>

datatype json =
    JNull
  | JBool bool
  | JNum rat
  | JStr string
  | JArr "json list"
  | JObj "(string \<times> json) list"

type_synonym jsval = "json option"

datatype js_error = SyntaxError | TypeError

text \<open>
  \<^verbatim>\<open>v.k\<close> for the property names this program reads (\<^verbatim>\<open>segments\<close>, \<^verbatim>\<open>llm_output\<close>,
  \<^verbatim>\<open>eos\<close>, \<^verbatim>\<open>text\<close>): \<^verbatim>\<open>null.k\<close> throws a TypeError, an object gives its own
  property or \<^verbatim>\<open>undefined\<close>, and booleans, numbers, strings and arrays have no property
  of these names.
\<close>

fun get_prop :: "json \<Rightarrow> string \<Rightarrow> js_error + jsval" where
  "get_prop JNull k = Inl TypeError"
| "get_prop (JObj kvs) k = Inr (map_of kvs k)"
| "get_prop v k = Inr None"

text \<open>JavaScript truthiness, as \<^verbatim>\<open>if (v)\<close> and \<^verbatim>\<open>v ? a : b\<close> test it.\<close>

fun truthy :: "jsval \<Rightarrow> bool" where
  "truthy None = False"
| "truthy (Some JNull) = False"
| "truthy (Some (JBool b)) = b"
| "truthy (Some (JNum r)) = (r \<noteq> 0)"
| "truthy (Some (JStr s)) = (s \<noteq> [])"
| "truthy (Some (JArr xs)) = True"
| "truthy (Some (JObj kvs)) = True"

subsection \<open>Records of the component\<close>

record Transcript =
  type :: TranscriptType
  content :: jsval
  timestamp :: int

text \<open>
  The interface declares \<^verbatim>\<open>content: string\<close>, but the value stored is \<^verbatim>\<open>seg.text\<close> of
  a segment typed \<^verbatim>\<open>any\<close>, so at run time it is whatever the message held there.
\<close>

record ToastProps =
  title :: string
  description :: string
  destructive :: bool

text \<open>
  A closure is what the functions created by one render of the component see of the state
  variables: the values the \<^verbatim>\<open>useState\<close> calls returned in that render. They do not
  change when the state is set later; a later render creates new functions.
\<close>

record closure =
  c_isRecording :: bool
  c_streamUrl :: string
  c_connectionStatus :: ConnectionStatus
  c_audioStream :: "nat option"
  c_isSecure :: bool

datatype ReadyState = CONNECTING | OPEN | CLOSING | CLOSED

datatype channel = Primary | Audio

text \<open>
  A socket remembers which handlers \<^verbatim>\<open>connectWebSocket\<close> attached to it: those of the
  transcription channel or of the audio channel, and the render they were created in.
\<close>

record socket =
  url :: string
  readyState :: ReadyState
  channel :: channel
  handlers :: closure

datatype outbound =
    SocketSend nat string
  | SocketSendBinary nat nat
  | HttpPost string string

fun payload :: "outbound \<Rightarrow> string" where
  "payload (SocketSend i m) = m"
| "payload (SocketSendBinary i b) = []"
| "payload (HttpPost path m) = m"

record state =
  isRecording :: bool
  transcripts :: "Transcript list"
  streamUrl :: string
  connectionStatus :: ConnectionStatus
  audioStream :: "nat option"
  isSecure :: bool
  audioRef :: bool
  socketRef :: "nat option"
  audioSocketRef :: "nat option"
  reconnectAttemptsRef :: nat
  location_protocol :: string
  location_host :: string
  sockets :: "socket list"
  timeouts :: "closure list"
  intervals :: "closure list"
  liveStreams :: "nat list"
  audio_src :: "string option"
  played :: "string list"
  revoked :: "string list"
  toasts :: "ToastProps list"
  outbox :: "outbound list"
  fetches :: "string list"
  console_errors :: "string list"
  renderError :: "js_error option"

text \<open>
  The first seven fields are the state variables (\<^verbatim>\<open>inputType\<close>, which only selects
  the controls shown, is left out), the next four the refs (\<open>audioRef\<close> says whether
  \<^verbatim>\<open>audioRef.current\<close> is the audio element or \<^verbatim>\<open>null\<close>; a socket ref is an index into
  \<open>sockets\<close>). The rest is the browser: the page's location, every socket created so far,
  the pending \<^verbatim>\<open>setTimeout(connectWebSocket, 3000)\<close> calls and the running
  \<^verbatim>\<open>setInterval\<close> timers (each with the closure of its callback), the media streams
  whose tracks are live, the audio element's \<^verbatim>\<open>src\<close>, the calls of \<^verbatim>\<open>play\<close> and of
  \<^verbatim>\<open>URL.revokeObjectURL\<close>, the toasts shown, the messages sent, the GET requests
  issued, the \<^verbatim>\<open>console.error\<close> lines, and the error of a state updater that threw
  while React rendered.
\<close>

definition maxReconnectAttempts :: nat where
  "maxReconnectAttempts = 5"

definition first_render :: closure where
  "first_render =
     \<lparr>c_isRecording = False, c_streamUrl = [], c_connectionStatus = Disconnected,
      c_audioStream = None, c_isSecure = False\<rparr>"

definition render :: "state \<Rightarrow> closure" where
  "render st =
     \<lparr>c_isRecording = isRecording st, c_streamUrl = streamUrl st,
      c_connectionStatus = connectionStatus st, c_audioStream = audioStream st,
      c_isSecure = isSecure st\<rparr>"

definition init :: "string \<Rightarrow> string \<Rightarrow> state" where
  "init protocol host =
     \<lparr>isRecording = False, transcripts = [], streamUrl = [],
      connectionStatus = Disconnected, audioStream = None, isSecure = False,
      audioRef = False, socketRef = None, audioSocketRef = None,
      reconnectAttemptsRef = 0,
      location_protocol = protocol, location_host = host,
      sockets = [], timeouts = [], intervals = [], liveStreams = [],
      audio_src = None, played = [], revoked = [], toasts = [], outbox = [],
      fetches = [], console_errors = [], renderError = None\<rparr>"

definition toast :: "ToastProps \<Rightarrow> state \<Rightarrow> state" where
  "toast t st = st\<lparr>toasts := toasts st @ [t]\<rparr>"

definition console_error :: "string \<Rightarrow> state \<Rightarrow> state" where
  "console_error m st = st\<lparr>console_errors := console_errors st @ [m]\<rparr>"

section \<open>The message dispatcher\<close>

text \<open>
  \<^verbatim>\<open>setTranscripts(prev => [...prev, {type, content, timestamp}])\<close>. React calls the
  updater when it renders, outside the handler's \<^verbatim>\<open>try\<close>; the record is built there, so
  a \<^verbatim>\<open>seg.text\<close> that throws does so in the render: the log is not extended, the error
  is kept in \<open>renderError\<close>, and the component tree is gone from then on.
\<close>

definition setTranscripts_append :: "js_error + Transcript \<Rightarrow> state \<Rightarrow> state" where
  "setTranscripts_append r st =
     (case renderError st of
        Some e \<Rightarrow> st
      | None \<Rightarrow>
          (case r of
             Inl e \<Rightarrow> st\<lparr>renderError := Some e\<rparr>
           | Inr t \<Rightarrow> st\<lparr>transcripts := transcripts st @ [t]\<rparr>))"

definition unrevised_record :: "json \<Rightarrow> int \<Rightarrow> js_error + Transcript" where
  "unrevised_record seg now =
     (case get_prop seg ''text'' of
        Inl e \<Rightarrow> Inl e
      | Inr text \<Rightarrow> Inr \<lparr>type = Unrevised, content = text, timestamp = now\<rparr>)"

definition output_record :: "json \<Rightarrow> json \<Rightarrow> int \<Rightarrow> js_error + Transcript" where
  "output_record data out now =
     (case get_prop data ''eos'' of
        Inl e \<Rightarrow> Inl e
      | Inr eos \<Rightarrow>
          Inr \<lparr>type = (if truthy eos then Voice else Revised), content = Some out,
               timestamp = now\<rparr>)"

text \<open>
  \<^verbatim>\<open>v.forEach(f)\<close>: an array calls \<open>f\<close> on each entry in order; any other value has no
  function of that name and the call throws a TypeError. The callbacks here only queue a
  state update, so they do not throw.
\<close>

fun forEach :: "jsval \<Rightarrow> (json \<Rightarrow> state \<Rightarrow> state) \<Rightarrow> state \<Rightarrow> js_error option \<times> state" where
  "forEach (Some (JArr xs)) f st = (None, foldl (\<lambda>s x. f x s) st xs)"
| "forEach v f st = (Some TypeError, st)"

text \<open>
  The body of the \<^verbatim>\<open>try\<close> block of \<^verbatim>\<open>handleTranscriptionMessage\<close>: the error it
  throws, if any, and the state at that point. \<open>JSON_parse\<close> is the browser's
  \<^verbatim>\<open>JSON.parse\<close> (\<open>None\<close> when it throws a SyntaxError), \<open>now\<close> the value of
  \<^verbatim>\<open>Date.now()\<close>.
\<close>

definition handleTranscriptionMessage_try ::
  "(string \<Rightarrow> json option) \<Rightarrow> int \<Rightarrow> string \<Rightarrow> state \<Rightarrow> js_error option \<times> state" where
  "handleTranscriptionMessage_try JSON_parse now raw st =
     (case JSON_parse raw of
        None \<Rightarrow> (Some SyntaxError, st)
      | Some data \<Rightarrow>
          (case get_prop data ''segments'' of
             Inl e \<Rightarrow> (Some e, st)
           | Inr segments \<Rightarrow>
               (case (if truthy segments
                      then forEach segments
                             (\<lambda>seg. setTranscripts_append (unrevised_record seg now)) st
                      else (None, st)) of
                  (Some e, st1) \<Rightarrow> (Some e, st1)
                | (None, st1) \<Rightarrow>
                    (case get_prop data ''llm_output'' of
                       Inl e \<Rightarrow> (Some e, st1)
                     | Inr llm_output \<Rightarrow>
                         (if truthy llm_output
                          then forEach llm_output
                                 (\<lambda>out. setTranscripts_append (output_record data out now)) st1
                          else (None, st1))))))"

text \<open>
  \<^verbatim>\<open>handleTranscriptionMessage\<close>: the \<^verbatim>\<open>catch\<close> logs whatever the body threw. The
  first component of the result is the error that leaves the handler.
\<close>

definition handleTranscriptionMessage ::
  "(string \<Rightarrow> json option) \<Rightarrow> int \<Rightarrow> string \<Rightarrow> state \<Rightarrow> js_error option \<times> state" where
  "handleTranscriptionMessage JSON_parse now raw st =
     (case handleTranscriptionMessage_try JSON_parse now raw st of
        (None, st') \<Rightarrow> (None, st')
      | (Some e, st') \<Rightarrow> (None, console_error ''Error parsing transcription message:'' st'))"

text \<open>
  The dispatcher on a sequence of messages, each with the clock reading at the moment it is
  handled.
\<close>

definition dispatch_all ::
  "(string \<Rightarrow> json option) \<Rightarrow> (int \<times> string) list \<Rightarrow> state \<Rightarrow> state" where
  "dispatch_all JSON_parse msgs st =
     foldl (\<lambda>s (now, raw). snd (handleTranscriptionMessage JSON_parse now raw s)) st msgs"

section \<open>The connection manager\<close>

definition setConnectionStatus :: "ConnectionStatus \<Rightarrow> state \<Rightarrow> state" where
  "setConnectionStatus s st = st\<lparr>connectionStatus := s\<rparr>"

definition new_WebSocket :: "string \<Rightarrow> channel \<Rightarrow> closure \<Rightarrow> state \<Rightarrow> state" where
  "new_WebSocket u ch clo st =
     st\<lparr>sockets := sockets st @
            [\<lparr>url = u, readyState = CONNECTING, channel = ch, handlers = clo\<rparr>]\<rparr>"

text \<open>
  \<^verbatim>\<open>connectWebSocket\<close>, as created by the render with closure \<open>clo\<close>: the scheme comes
  from that render's \<^verbatim>\<open>isSecure\<close>; the refs are overwritten, the sockets they pointed to
  are not closed; the handlers attached are those of the same render.
\<close>

definition connectWebSocket :: "closure \<Rightarrow> state \<Rightarrow> state" where
  "connectWebSocket clo st =
     (let st1 = setConnectionStatus Connecting st;
          wsProtocol = (if c_isSecure clo then ''wss://'' else ''ws://'');
          host = location_host st1;
          wsUrl = wsProtocol @ host @ ''/api/transcription'';
          st2 = (new_WebSocket wsUrl Primary clo st1)\<lparr>socketRef := Some (length (sockets st1))\<rparr>;
          audioWsUrl = wsProtocol @ host @ ''/api/tts''
      in (new_WebSocket audioWsUrl Audio clo st2)\<lparr>audioSocketRef := Some (length (sockets st2))\<rparr>)"

definition socket_onopen :: "closure \<Rightarrow> state \<Rightarrow> state" where
  "socket_onopen clo st =
     toast \<lparr>title = ''Connected'',
            description = ''Secure '' @ (if c_isSecure clo then ''(HTTPS)'' else ''(HTTP)'') @
                          '' connection established'',
            destructive = False\<rparr>
       ((setConnectionStatus Connected st)\<lparr>reconnectAttemptsRef := 0\<rparr>)"

definition handleWebSocketError :: "closure \<Rightarrow> state \<Rightarrow> state" where
  "handleWebSocketError clo st =
     toast \<lparr>title = ''Connection Error'',
            description = ''Connection error. Attempting to reconnect...'',
            destructive = True\<rparr>
       (setConnectionStatus Disconnected (console_error ''WebSocket error:'' st))"

text \<open>
  \<^verbatim>\<open>startPolling\<close> returns the function that would clear its interval; the model returns
  the interval's index with the new state.
\<close>

definition startPolling :: "closure \<Rightarrow> state \<Rightarrow> nat \<times> state" where
  "startPolling clo st =
     (length (intervals st),
      (setConnectionStatus Polling st)\<lparr>intervals := intervals st @ [clo]\<rparr>)"

text \<open>\<^verbatim>\<open>handleWebSocketClose\<close> drops what \<^verbatim>\<open>startPolling\<close> returns.\<close>

definition handleWebSocketClose :: "closure \<Rightarrow> state \<Rightarrow> state" where
  "handleWebSocketClose clo st =
     (let st1 = setConnectionStatus Disconnected st
      in if reconnectAttemptsRef st1 < maxReconnectAttempts
         then st1\<lparr>reconnectAttemptsRef := reconnectAttemptsRef st1 + 1,
                  timeouts := timeouts st1 @ [clo]\<rparr>
         else snd (startPolling clo st1))"

subsection \<open>The polling fallback\<close>

datatype fetch_result = NetworkError | NotJson | JsonBody json

definition startPolling_catch :: "state \<Rightarrow> state" where
  "startPolling_catch st =
     toast \<lparr>title = ''Polling Error'', description = ''Failed to fetch updates'',
            destructive = True\<rparr>
       (console_error ''Error polling transcripts:'' st)"

text \<open>
  The second \<^verbatim>\<open>then\<close> of the fetch: \<^verbatim>\<open>data.segments || data.llm_output\<close> decides whether
  the data goes to the dispatcher, as the text \<^verbatim>\<open>JSON.stringify(data)\<close>.
\<close>

definition startPolling_then ::
  "(string \<Rightarrow> json option) \<Rightarrow> (json \<Rightarrow> string) \<Rightarrow> int \<Rightarrow> json \<Rightarrow> state \<Rightarrow>
     js_error option \<times> state" where
  "startPolling_then JSON_parse JSON_stringify now data st =
     (case get_prop data ''segments'' of
        Inl e \<Rightarrow> (Some e, st)
      | Inr segments \<Rightarrow>
          (if truthy segments
           then (None, snd (handleTranscriptionMessage JSON_parse now (JSON_stringify data) st))
           else (case get_prop data ''llm_output'' of
                   Inl e \<Rightarrow> (Some e, st)
                 | Inr llm_output \<Rightarrow>
                     (if truthy llm_output
                      then (None, snd (handleTranscriptionMessage JSON_parse now
                                         (JSON_stringify data) st))
                      else (None, st)))))"

text \<open>
  The callback of the interval, with the outcome \<open>res\<close> of the request it may issue. The
  status it tests is the one of the render that created the callback.
\<close>

definition startPolling_tick ::
  "closure \<Rightarrow> (string \<Rightarrow> json option) \<Rightarrow> (json \<Rightarrow> string) \<Rightarrow> int \<Rightarrow> fetch_result \<Rightarrow>
     state \<Rightarrow> state" where
  "startPolling_tick clo JSON_parse JSON_stringify now res st =
     (if c_connectionStatus clo \<noteq> Connected
      then (let st1 = st\<lparr>fetches := fetches st @ [''/api/transcripts'']\<rparr>
            in case res of
                 NetworkError \<Rightarrow> startPolling_catch st1
               | NotJson \<Rightarrow> startPolling_catch st1
               | JsonBody data \<Rightarrow>
                   (case startPolling_then JSON_parse JSON_stringify now data st1 of
                      (None, st2) \<Rightarrow> st2
                    | (Some e, st2) \<Rightarrow> startPolling_catch st2))
      else st)"

text \<open>
  \<^verbatim>\<open>GET\<close> of \<^verbatim>\<open>app/api/transcripts/transcripts_route.ts\<close>: the status and the body of the
  response.
\<close>

definition transcripts_route_GET :: "nat \<times> json" where
  "transcripts_route_GET =
     (200,
      JArr [JObj [(''type'', JStr ''unrevised''),
                  (''content'', JStr ''This is an unrevised transcript.'')],
            JObj [(''type'', JStr ''revised''),
                  (''content'', JStr ''This is a revised transcript.'')],
            JObj [(''type'', JStr ''voice''),
                  (''content'', JStr ''This is a generated voice output transcript.'')]])"

section \<open>Playback\<close>

text \<open>\<open>play_ok\<close> says whether the promise of \<^verbatim>\<open>audio.play()\<close> resolves.\<close>

definition playAudio :: "string \<Rightarrow> bool \<Rightarrow> state \<Rightarrow> state" where
  "playAudio u play_ok st =
     (if audioRef st
      then (let st1 = st\<lparr>audio_src := Some u\<rparr>;
                st2 = st1\<lparr>played := played st1 @ [u]\<rparr>;
                st3 = (if play_ok then st2
                       else toast \<lparr>title = ''Audio Error'',
                                   description = ''Failed to play audio output'',
                                   destructive = True\<rparr>
                              (console_error ''Error playing audio:'' st2))
            in st3\<lparr>revoked := revoked st3 @ [u]\<rparr>)
      else st)"

datatype ws_data = TextData string | BlobData nat

text \<open>What \<^verbatim>\<open>JSON.parse\<close> reads of the data of a message: a blob is converted to text.\<close>

fun data_text :: "ws_data \<Rightarrow> string" where
  "data_text (TextData s) = s"
| "data_text (BlobData b) = ''[object Blob]''"

definition handleAudioMessage :: "(nat \<Rightarrow> string) \<Rightarrow> ws_data \<Rightarrow> bool \<Rightarrow> state \<Rightarrow> state" where
  "handleAudioMessage createObjectURL d play_ok st =
     (case d of
        BlobData b \<Rightarrow> playAudio (createObjectURL b) play_ok st
      | TextData s \<Rightarrow> st)"

section \<open>The capture controller\<close>

text \<open>
  \<open>post_ok\<close> says whether the POST of the fallback path comes back with an ok status and
  a JSON body.
\<close>

definition sendMessage_post :: "string \<Rightarrow> bool \<Rightarrow> state \<Rightarrow> state" where
  "sendMessage_post message post_ok st =
     (let st1 = st\<lparr>outbox := outbox st @ [HttpPost ''/api/send-message'' message]\<rparr>
      in if post_ok then st1
         else toast \<lparr>title = ''Error'', description = ''Failed to send message'',
                     destructive = True\<rparr>
                (console_error ''Error sending message:'' st1))"

text \<open>
  \<^verbatim>\<open>socketRef.current?.readyState === WebSocket.OPEN\<close>: the socket the ref points to, when
  there is one and it is open.
\<close>

definition open_socket :: "state \<Rightarrow> nat option" where
  "open_socket st =
     (case socketRef st of
        None \<Rightarrow> None
      | Some i \<Rightarrow>
          (if i < length (sockets st) \<and> readyState (sockets st ! i) = OPEN then Some i
           else None))"

definition sendMessage :: "string \<Rightarrow> bool \<Rightarrow> state \<Rightarrow> state" where
  "sendMessage message post_ok st =
     (case open_socket st of
        Some i \<Rightarrow> st\<lparr>outbox := outbox st @ [SocketSend i message]\<rparr>
      | None \<Rightarrow> sendMessage_post message post_ok st)"

definition stopAudioStream :: "closure \<Rightarrow> state \<Rightarrow> state" where
  "stopAudioStream clo st =
     (case c_audioStream clo of
        None \<Rightarrow> st
      | Some s \<Rightarrow> st\<lparr>liveStreams := removeAll s (liveStreams st), audioStream := None\<rparr>)"

text \<open>
  \<open>granted\<close> is the stream \<^verbatim>\<open>getUserMedia\<close> resolves with, or \<open>None\<close> when it rejects.
  The recorder's chunks are \<open>mediaRecorder_ondataavailable\<close>.
\<close>

definition startRecording :: "closure \<Rightarrow> nat option \<Rightarrow> bool \<Rightarrow> state \<Rightarrow> state" where
  "startRecording clo granted post_ok st =
     (case granted of
        None \<Rightarrow>
          toast \<lparr>title = ''Microphone Error'', description = ''Failed to access microphone'',
                 destructive = True\<rparr>
            (console_error ''Error accessing microphone:'' st)
      | Some s \<Rightarrow>
          sendMessage ''START_RECORDING'' post_ok
            (st\<lparr>liveStreams := liveStreams st @ [s], audioStream := Some s,
                isRecording := True\<rparr>))"

definition mediaRecorder_ondataavailable :: "nat \<Rightarrow> nat \<Rightarrow> state \<Rightarrow> state" where
  "mediaRecorder_ondataavailable size_of_data blob st =
     (if 0 < size_of_data
      then (case open_socket st of
              Some i \<Rightarrow> st\<lparr>outbox := outbox st @ [SocketSendBinary i blob]\<rparr>
            | None \<Rightarrow> st)
      else st)"

definition stopRecording :: "closure \<Rightarrow> bool \<Rightarrow> state \<Rightarrow> state" where
  "stopRecording clo post_ok st =
     sendMessage ''STOP_RECORDING'' post_ok ((stopAudioStream clo st)\<lparr>isRecording := False\<rparr>)"

definition handleStreamUrlChange :: "string \<Rightarrow> state \<Rightarrow> state" where
  "handleStreamUrlChange v st = st\<lparr>streamUrl := v\<rparr>"

definition handleStartStreaming :: "closure \<Rightarrow> bool \<Rightarrow> state \<Rightarrow> state" where
  "handleStartStreaming clo post_ok st =
     (if c_streamUrl clo = []
      then toast \<lparr>title = ''Error'', description = ''Please enter a stream URL'',
                  destructive = True\<rparr> st
      else sendMessage (''START_STREAMING:'' @ c_streamUrl clo) post_ok st)"

section \<open>Mounting and unmounting\<close>

text \<open>
  The effect with the empty dependency list runs once, after the first render, and its
  cleanup runs when the component unmounts. Both are functions of the first render, whose
  closure holds the initial values of the state variables; \<^verbatim>\<open>setIsSecure\<close> changes the
  state, not that closure.
\<close>

definition useEffect_mount :: "closure \<Rightarrow> state \<Rightarrow> state" where
  "useEffect_mount clo st =
     connectWebSocket clo (st\<lparr>isSecure := (location_protocol st = ''https:'')\<rparr>)"

text \<open>
  \<^verbatim>\<open>ref.current?.close()\<close>: a socket that is connecting or open starts closing (its close
  event comes later); nothing happens to a socket that is closing or closed, or through a
  ref that is \<^verbatim>\<open>null\<close>.
\<close>

definition socket_close :: "nat option \<Rightarrow> state \<Rightarrow> state" where
  "socket_close r st =
     (case r of
        None \<Rightarrow> st
      | Some i \<Rightarrow>
          (if i < length (sockets st)
           then st\<lparr>sockets := (sockets st)
                  [i := (sockets st ! i)
                     \<lparr>readyState :=
                        (case readyState (sockets st ! i) of
                           CONNECTING \<Rightarrow> CLOSING
                         | OPEN \<Rightarrow> CLOSING
                         | CLOSING \<Rightarrow> CLOSING
                         | CLOSED \<Rightarrow> CLOSED)\<rparr>]\<rparr>
           else st))"

definition useEffect_cleanup :: "closure \<Rightarrow> state \<Rightarrow> state" where
  "useEffect_cleanup clo st =
     stopAudioStream clo (socket_close (audioSocketRef st) (socket_close (socketRef st) st))"

definition mount :: "state \<Rightarrow> state" where
  "mount st = useEffect_mount first_render (st\<lparr>audioRef := True\<rparr>)"

definition unmount :: "state \<Rightarrow> state" where
  "unmount st = (useEffect_cleanup first_render st)\<lparr>audioRef := False\<rparr>"

section \<open>The component as a transition system\<close>

text \<open>
  What can happen to a mounted component: events of a socket (by its index), a pending
  reconnect timeout firing, an interval ticking, the user's actions, and the unmount.
  A socket's handler and a timer's callback run with the closure they were created with; a
  button's handler is the one of the latest render. The events carry what the browser
  supplies to the handler: the clock, the outcome of a request, of \<^verbatim>\<open>play\<close>, of
  \<^verbatim>\<open>getUserMedia\<close>.
\<close>

datatype event =
    SocketOpen nat
  | SocketMessage nat ws_data int bool
  | SocketError nat
  | SocketClose nat
  | TimeoutFires
  | IntervalTick nat int fetch_result
  | ClickStartRecording "nat option" bool
  | ClickStopRecording bool
  | StreamUrlInput string
  | ClickStartStreaming bool
  | Unmount

record browser =
  JSON_parse_of :: "string \<Rightarrow> json option"
  JSON_stringify_of :: "json \<Rightarrow> string"
  createObjectURL_of :: "nat \<Rightarrow> string"

definition set_readyState :: "nat \<Rightarrow> ReadyState \<Rightarrow> state \<Rightarrow> state" where
  "set_readyState i r st =
     st\<lparr>sockets := (sockets st)[i := (sockets st ! i)\<lparr>readyState := r\<rparr>]\<rparr>"

fun step :: "browser \<Rightarrow> event \<Rightarrow> state \<Rightarrow> state" where
  "step B (SocketOpen i) st =
     (if i < length (sockets st) \<and> readyState (sockets st ! i) = CONNECTING
      then (case channel (sockets st ! i) of
              Primary \<Rightarrow> socket_onopen (handlers (sockets st ! i)) (set_readyState i OPEN st)
            | Audio \<Rightarrow> set_readyState i OPEN st)
      else st)"
| "step B (SocketMessage i d now play_ok) st =
     (if i < length (sockets st) \<and> readyState (sockets st ! i) = OPEN
      then (case channel (sockets st ! i) of
              Primary \<Rightarrow>
                snd (handleTranscriptionMessage (JSON_parse_of B) now (data_text d) st)
            | Audio \<Rightarrow> handleAudioMessage (createObjectURL_of B) d play_ok st)
      else st)"
| "step B (SocketError i) st =
     (if i < length (sockets st) \<and> readyState (sockets st ! i) \<noteq> CLOSED
      then handleWebSocketError (handlers (sockets st ! i)) st
      else st)"
| "step B (SocketClose i) st =
     (if i < length (sockets st) \<and> readyState (sockets st ! i) \<noteq> CLOSED
      then handleWebSocketClose (handlers (sockets st ! i)) (set_readyState i CLOSED st)
      else st)"
| "step B TimeoutFires st =
     (case timeouts st of
        [] \<Rightarrow> st
      | clo # rest \<Rightarrow> connectWebSocket clo (st\<lparr>timeouts := rest\<rparr>))"
| "step B (IntervalTick k now res) st =
     (if k < length (intervals st)
      then startPolling_tick (intervals st ! k) (JSON_parse_of B) (JSON_stringify_of B) now res st
      else st)"
| "step B (ClickStartRecording granted post_ok) st =
     (if audioRef st \<and> \<not> isRecording st
      then startRecording (render st) granted post_ok st
      else st)"
| "step B (ClickStopRecording post_ok) st =
     (if audioRef st \<and> isRecording st then stopRecording (render st) post_ok st else st)"
| "step B (StreamUrlInput v) st =
     (if audioRef st then handleStreamUrlChange v st else st)"
| "step B (ClickStartStreaming post_ok) st =
     (if audioRef st then handleStartStreaming (render st) post_ok st else st)"
| "step B Unmount st = (if audioRef st then unmount st else st)"

definition run :: "browser \<Rightarrow> event list \<Rightarrow> state \<Rightarrow> state" where
  "run B evs st = foldl (\<lambda>s ev. step B ev s) st evs"

section \<open>The dispatcher in the words of the specification\<close>

text \<open>
  A transcription message as the specification describes it: a JSON object with optional
  fields \<^verbatim>\<open>segments\<close> (a list of objects with a \<^verbatim>\<open>text\<close>), \<^verbatim>\<open>llm_output\<close> (a list of
  texts) and a boolean \<^verbatim>\<open>eos\<close>. \<open>decode\<close> reads such a message out of a JSON value and
  is \<open>None\<close> on a value of any other shape. \<open>spec_records\<close> are the records the
  specification asks for: one unrevised record per segment, then one record per generated
  output, voice when \<^verbatim>\<open>eos\<close> is set and revised otherwise.
\<close>

record message =
  m_segments :: "string list"
  m_llm_output :: "string list"
  m_eos :: bool

fun segment_text :: "json \<Rightarrow> string option" where
  "segment_text (JObj kvs) = (case map_of kvs ''text'' of Some (JStr t) \<Rightarrow> Some t | _ \<Rightarrow> None)"
| "segment_text v = None"

fun output_text :: "json \<Rightarrow> string option" where
  "output_text (JStr s) = Some s"
| "output_text v = None"

fun decode_list :: "(json \<Rightarrow> 'a option) \<Rightarrow> jsval \<Rightarrow> 'a list option" where
  "decode_list f None = Some []"
| "decode_list f (Some (JArr xs)) = those (map f xs)"
| "decode_list f v = None"

fun decode_eos :: "jsval \<Rightarrow> bool option" where
  "decode_eos None = Some False"
| "decode_eos (Some (JBool b)) = Some b"
| "decode_eos v = None"

fun decode :: "json \<Rightarrow> message option" where
  "decode (JObj kvs) =
     (case (decode_list segment_text (map_of kvs ''segments''),
            decode_list output_text (map_of kvs ''llm_output''),
            decode_eos (map_of kvs ''eos'')) of
        (Some segs, Some outs, Some e) \<Rightarrow>
          Some \<lparr>m_segments = segs, m_llm_output = outs, m_eos = e\<rparr>
      | _ \<Rightarrow> None)"
| "decode v = None"

definition spec_records :: "int \<Rightarrow> message \<Rightarrow> Transcript list" where
  "spec_records now m =
     map (\<lambda>t. \<lparr>type = Unrevised, content = Some (JStr t), timestamp = now\<rparr>) (m_segments m) @
     map (\<lambda>out. \<lparr>type = (if m_eos m then Voice else Revised), content = Some (JStr out),
                 timestamp = now\<rparr>) (m_llm_output m)"

definition well_formed :: "(string \<Rightarrow> json option) \<Rightarrow> string \<Rightarrow> bool" where
  "well_formed JSON_parse raw =
     (case JSON_parse raw of None \<Rightarrow> True | Some d \<Rightarrow> decode d \<noteq> None)"

fun expected_records :: "(string \<Rightarrow> json option) \<Rightarrow> int \<times> string \<Rightarrow> Transcript list" where
  "expected_records JSON_parse (now, raw) =
     (case JSON_parse raw of
        None \<Rightarrow> []
      | Some d \<Rightarrow> (case decode d of None \<Rightarrow> [] | Some m \<Rightarrow> spec_records now m))"

text \<open>
  \<^verbatim>\<open>JSON.parse\<close> on the three texts the examples below use; this table rejects every
  other text.
\<close>

definition JSON_parse_sample :: "string \<Rightarrow> json option" where
  \<open>JSON_parse_sample s =
     (if s = ''{"segments":[{"text":"hello"},{"text":"world"}],"llm_output":["Hello, world."],"eos":false}''
      then Some (JObj [(''segments'', JArr [JObj [(''text'', JStr ''hello'')],
                                            JObj [(''text'', JStr ''world'')]]),
                       (''llm_output'', JArr [JStr ''Hello, world.'']),
                       (''eos'', JBool False)])
      else if s = ''{"llm_output":["Hello, world!"],"eos":true}''
      then Some (JObj [(''llm_output'', JArr [JStr ''Hello, world!'']), (''eos'', JBool True)])
      else if s = ''{"segments":[null],"llm_output":["x"]}''
      then Some (JObj [(''segments'', JArr [JNull]), (''llm_output'', JArr [JStr ''x''])])
      else None)\<close>

section \<open>Scenarios\<close>

text \<open>
  A run of close and error events of the sockets, each handled by \<^verbatim>\<open>handleWebSocketClose\<close>
  or \<^verbatim>\<open>handleWebSocketError\<close> of the closure \<open>clo\<close>, with no open event in between;
  \<open>closes\<close> counts the close events of a run.
\<close>

datatype channel_event = CloseEvent | ErrorEvent

fun on_channel_event :: "closure \<Rightarrow> channel_event \<Rightarrow> state \<Rightarrow> state" where
  "on_channel_event clo CloseEvent st = handleWebSocketClose clo st"
| "on_channel_event clo ErrorEvent st = handleWebSocketError clo st"

definition channel_events :: "closure \<Rightarrow> channel_event list \<Rightarrow> state \<Rightarrow> state" where
  "channel_events clo evs st = foldl (\<lambda>s e. on_channel_event clo e s) st evs"

definition closes :: "channel_event list \<Rightarrow> nat" where
  "closes evs = length (filter (\<lambda>e. e = CloseEvent) evs)"

text \<open>
  Both endpoints refuse the first three connections: the two sockets of the mount close,
  the first reconnect fires and its two sockets close, the second reconnect fires and its
  two sockets close. That is the sixth close event since the mount.
\<close>

definition polling_trace :: "event list" where
  "polling_trace =
     [SocketClose 0, SocketClose 1, TimeoutFires,
      SocketClose 2, SocketClose 3, TimeoutFires,
      SocketClose 4, SocketClose 5]"


text \<open>
  Polling rounds against the stub route: the interval ticks at the times \<open>nows\<close> and each
  request is answered with the body the stub's \<^verbatim>\<open>GET\<close> returns.
\<close>

definition poll_against_stub ::
  "closure \<Rightarrow> (string \<Rightarrow> json option) \<Rightarrow> (json \<Rightarrow> string) \<Rightarrow> int list \<Rightarrow> state \<Rightarrow> state" where
  "poll_against_stub clo JSON_parse JSON_stringify nows st =
     foldl (\<lambda>s now. startPolling_tick clo JSON_parse JSON_stringify now
                       (JsonBody (snd transcripts_route_GET)) s) st nows"

text \<open>
  The closures a running component can hold: every socket's handlers and every timer's
  callback belong to the first render, and every socket has a \<^verbatim>\<open>ws://\<close> address.
\<close>

definition first_closure_only :: "state \<Rightarrow> bool" where
  "first_closure_only st =
     (list_all (\<lambda>s. handlers s = first_render \<and> take 5 (url s) = ''ws://'') (sockets st) \<and>
      list_all (\<lambda>c. c = first_render) (timeouts st) \<and>
      list_all (\<lambda>c. c = first_render) (intervals st))"

text \<open>The sockets, the timers and the requests issued: what the dispatcher never touches.\<close>

definition timers :: "state \<Rightarrow> socket list \<times> closure list \<times> closure list \<times> string list" where
  "timers st = (sockets st, timeouts st, intervals st, fetches st)"

section \<open>Properties of the dispatcher\<close>

lemma segment_text_Some:
  "segment_text x = Some t \<Longrightarrow>
     unrevised_record x now = Inr \<lparr>type = Unrevised, content = Some (JStr t), timestamp = now\<rparr>"
  by (cases x) (auto simp: unrevised_record_def split: option.splits json.splits)

lemma output_text_Some: "output_text x = Some t \<Longrightarrow> x = JStr t"
  by (cases x) auto

lemma append_ok:
  "renderError st = None \<Longrightarrow>
     setTranscripts_append (Inr t) st = st\<lparr>transcripts := transcripts st @ [t]\<rparr>"
  by (simp add: setTranscripts_append_def)

lemma foldl_segments:
  "those (map segment_text xs) = Some ts \<Longrightarrow> renderError st = None \<Longrightarrow>
     foldl (\<lambda>s x. setTranscripts_append (unrevised_record x now) s) st xs =
       st\<lparr>transcripts := transcripts st @
            map (\<lambda>t. \<lparr>type = Unrevised, content = Some (JStr t), timestamp = now\<rparr>) ts\<rparr>"
proof (induction xs arbitrary: st ts)
  case Nil
  then show ?case by simp
next
  case (Cons x xs)
  from Cons.prems(1) obtain t ts' where t: "segment_text x = Some t"
    and ts': "those (map segment_text xs) = Some ts'" and ts: "ts = t # ts'"
    by (auto split: option.splits)
  let ?st1 = "st\<lparr>transcripts := transcripts st @ [\<lparr>type = Unrevised, content = Some (JStr t), timestamp = now\<rparr>]\<rparr>"
  have r: "renderError ?st1 = None" using Cons.prems(2) by simp
  show ?case
    using Cons.IH [OF ts' r] Cons.prems(2)
    by (simp add: segment_text_Some [OF t] append_ok ts)
qed

lemma foldl_outputs:
  "those (map output_text xs) = Some ts \<Longrightarrow> renderError st = None \<Longrightarrow>
     get_prop data ''eos'' = Inr e \<Longrightarrow>
     foldl (\<lambda>s x. setTranscripts_append (output_record data x now) s) st xs =
       st\<lparr>transcripts := transcripts st @
            map (\<lambda>t. \<lparr>type = (if truthy e then Voice else Revised), content = Some (JStr t), timestamp = now\<rparr>) ts\<rparr>"
proof (induction xs arbitrary: st ts)
  case Nil
  then show ?case by simp
next
  case (Cons x xs)
  from Cons.prems(1) obtain t ts' where t: "output_text x = Some t"
    and ts': "those (map output_text xs) = Some ts'" and ts: "ts = t # ts'"
    by (auto split: option.splits)
  let ?st1 = "st\<lparr>transcripts := transcripts st @ [\<lparr>type = (if truthy e then Voice else Revised), content = Some (JStr t), timestamp = now\<rparr>]\<rparr>"
  have r: "renderError ?st1 = None" using Cons.prems(2) by simp
  show ?case
    using Cons.IH [OF ts' r Cons.prems(3)] Cons.prems(2,3) output_text_Some [OF t]
    by (simp add: output_record_def append_ok ts)
qed

lemma forEach_segments:
  "decode_list segment_text v = Some ts \<Longrightarrow> renderError st = None \<Longrightarrow>
   (if truthy v then forEach v (\<lambda>seg. setTranscripts_append (unrevised_record seg now)) st
    else (None, st)) =
   (None, st\<lparr>transcripts := transcripts st @
            map (\<lambda>t. \<lparr>type = Unrevised, content = Some (JStr t), timestamp = now\<rparr>) ts\<rparr>)"
  by (cases "(segment_text, v)" rule: decode_list.cases) (auto simp: foldl_segments)

lemma forEach_outputs:
  "decode_list output_text v = Some ts \<Longrightarrow> renderError st = None \<Longrightarrow>
   get_prop data ''eos'' = Inr e \<Longrightarrow>
   (if truthy v then forEach v (\<lambda>out. setTranscripts_append (output_record data out now)) st
    else (None, st)) =
   (None, st\<lparr>transcripts := transcripts st @
            map (\<lambda>t. \<lparr>type = (if truthy e then Voice else Revised), content = Some (JStr t), timestamp = now\<rparr>) ts\<rparr>)"
  by (cases "(output_text, v)" rule: decode_list.cases) (auto simp: foldl_outputs)

lemma decode_eos_truthy: "decode_eos v = Some b \<Longrightarrow> truthy v = b"
  by (cases v rule: decode_eos.cases) auto

lemma handle_decoded:
  assumes "JSON_parse raw = Some d" and "decode d = Some m" and "renderError st = None"
  shows "handleTranscriptionMessage JSON_parse now raw st =
           (None, st\<lparr>transcripts := transcripts st @ spec_records now m\<rparr>)"
proof -
  from assms(2) obtain kvs where d: "d = JObj kvs" by (cases d) auto
  from assms(2) d have segs: "decode_list segment_text (map_of kvs ''segments'') = Some (m_segments m)"
    and outs: "decode_list output_text (map_of kvs ''llm_output'') = Some (m_llm_output m)"
    and e: "decode_eos (map_of kvs ''eos'') = Some (m_eos m)"
    by (auto split: option.splits)
  have eos: "get_prop (JObj kvs) ''eos'' = Inr (map_of kvs ''eos'')" by simp
  let ?st1 = "st\<lparr>transcripts := transcripts st @
            map (\<lambda>t. \<lparr>type = Unrevised, content = Some (JStr t), timestamp = now\<rparr>) (m_segments m)\<rparr>"
  have r1: "renderError ?st1 = None" using assms(3) by simp
  note h1 = forEach_segments [OF segs assms(3), of now]
  note h2 = forEach_outputs [OF outs r1 eos, of now]
  have "handleTranscriptionMessage_try JSON_parse now raw st =
           (None, st\<lparr>transcripts := transcripts st @ spec_records now m\<rparr>)"
    unfolding handleTranscriptionMessage_try_def
    by (simp add: assms(1) d spec_records_def h1 h2 decode_eos_truthy [OF e])
  then show ?thesis by (simp add: handleTranscriptionMessage_def)
qed

lemma handle_malformed:
  "JSON_parse raw = None \<Longrightarrow>
     handleTranscriptionMessage JSON_parse now raw st =
       (None, console_error ''Error parsing transcription message:'' st)"
  by (simp add: handleTranscriptionMessage_def handleTranscriptionMessage_try_def)

lemma console_error_fields [simp]:
  "transcripts (console_error m st) = transcripts st"
  "renderError (console_error m st) = renderError st"
  by (simp_all add: console_error_def)

text \<open>
  Claim C3. A message that is not JSON (\<^verbatim>\<open>JSON.parse\<close> throws) leaves the transcript
  log as it was, queues no update that could fail in the render, and no error leaves the
  handler: the \<^verbatim>\<open>catch\<close> logs it.
\<close>

theorem malformed_message_dropped:
  "JSON_parse raw = None \<Longrightarrow>
     fst (handleTranscriptionMessage JSON_parse now raw st) = None \<and>
     transcripts (snd (handleTranscriptionMessage JSON_parse now raw st)) = transcripts st \<and>
     renderError (snd (handleTranscriptionMessage JSON_parse now raw st)) = renderError st"
  by (simp add: handle_malformed)

theorem malformed_message_dropped_witness:
  "JSON_parse_sample ''not json'' = None \<and>
   fst (handleTranscriptionMessage JSON_parse_sample 7 ''not json'' (init ''http:'' ''localhost:3000'')) = None \<and>
   transcripts (snd (handleTranscriptionMessage JSON_parse_sample 7 ''not json'' (init ''http:'' ''localhost:3000''))) = []"
proof -
  have h: "JSON_parse_sample ''not json'' = None"
    by (simp add: JSON_parse_sample_def)
  show ?thesis
    using h malformed_message_dropped [where JSON_parse = JSON_parse_sample and raw = "''not json''"
        and now = 7 and st = "init ''http:'' ''localhost:3000''"]
    by (simp add: init_def)
qed

lemma handle_step:
  assumes "well_formed JSON_parse raw" and "renderError st = None"
  shows "transcripts (snd (handleTranscriptionMessage JSON_parse now raw st)) =
           transcripts st @ expected_records JSON_parse (now, raw) \<and>
         renderError (snd (handleTranscriptionMessage JSON_parse now raw st)) = None"
proof (cases "JSON_parse raw")
  case None
  then show ?thesis using assms(2) by (simp add: handle_malformed)
next
  case (Some d)
  with assms(1) obtain m where m: "decode d = Some m"
    by (auto simp: well_formed_def)
  show ?thesis
    using assms(2)
    by (simp add: handle_decoded [where JSON_parse = JSON_parse and raw = raw, OF Some m assms(2)]
        Some m)
qed

text \<open>
  Claim C1. For every sequence of inbound messages, each either not JSON or a
  transcription message of the specified shape, handled in receipt order by a component
  whose render has not failed: the transcript log afterwards is the log before, followed,
  message by message, by one unrevised record per segment (its content the segment's text)
  and then one record per entry of \<^verbatim>\<open>llm_output\<close>, voice when \<^verbatim>\<open>eos\<close> is set and
  revised otherwise. A message that is not JSON adds nothing.
\<close>

theorem transcript_log_of_messages:
  assumes "list_all (\<lambda>(now, raw). well_formed JSON_parse raw) msgs"
    and "renderError st = None"
  shows "transcripts (dispatch_all JSON_parse msgs st) =
           transcripts st @ concat (map (expected_records JSON_parse) msgs)"
  using assms
proof (induction msgs arbitrary: st)
  case Nil
  then show ?case by (simp add: dispatch_all_def)
next
  case (Cons a msgs)
  obtain now raw where a: "a = (now, raw)" by (cases a)
  let ?st1 = "snd (handleTranscriptionMessage JSON_parse now raw st)"
  from Cons.prems a have wf: "well_formed JSON_parse raw"
    and rest: "list_all (\<lambda>(now, raw). well_formed JSON_parse raw) msgs"
    by simp_all
  note s = handle_step [OF wf Cons.prems(2), of now]
  have "dispatch_all JSON_parse (a # msgs) st = dispatch_all JSON_parse msgs ?st1"
    by (simp add: dispatch_all_def a)
  then show ?case
    using Cons.IH [OF rest, of ?st1] s by (simp add: a)
qed

theorem transcript_log_of_messages_witness:
  \<open>list_all (\<lambda>(now, raw). well_formed JSON_parse_sample raw)
     [(100 :: int, ''{"segments":[{"text":"hello"},{"text":"world"}],"llm_output":["Hello, world."],"eos":false}''),
      (200, ''not json''),
      (300, ''{"llm_output":["Hello, world!"],"eos":true}'')] \<and>
   renderError (init ''http:'' ''localhost:3000'') = None \<and>
   transcripts (dispatch_all JSON_parse_sample
     [(100, ''{"segments":[{"text":"hello"},{"text":"world"}],"llm_output":["Hello, world."],"eos":false}''),
      (200, ''not json''),
      (300, ''{"llm_output":["Hello, world!"],"eos":true}'')]
     (init ''http:'' ''localhost:3000'')) =
   [\<lparr>type = Unrevised, content = Some (JStr ''hello''), timestamp = 100\<rparr>,
    \<lparr>type = Unrevised, content = Some (JStr ''world''), timestamp = 100\<rparr>,
    \<lparr>type = Revised, content = Some (JStr ''Hello, world.''), timestamp = 100\<rparr>,
    \<lparr>type = Voice, content = Some (JStr ''Hello, world!''), timestamp = 300\<rparr>]\<close>
proof -
  let ?msgs = \<open>[(100 :: int, ''{"segments":[{"text":"hello"},{"text":"world"}],"llm_output":["Hello, world."],"eos":false}''),
      (200, ''not json''),
      (300, ''{"llm_output":["Hello, world!"],"eos":true}'')]\<close>
  have wf: "list_all (\<lambda>(now, raw). well_formed JSON_parse_sample raw) ?msgs"
    by (simp add: well_formed_def JSON_parse_sample_def)
  have r: "renderError (init ''http:'' ''localhost:3000'') = None"
    by (simp add: init_def)
  have e: "concat (map (expected_records JSON_parse_sample) ?msgs) =
   [\<lparr>type = Unrevised, content = Some (JStr ''hello''), timestamp = 100\<rparr>,
    \<lparr>type = Unrevised, content = Some (JStr ''world''), timestamp = 100\<rparr>,
    \<lparr>type = Revised, content = Some (JStr ''Hello, world.''), timestamp = 100\<rparr>,
    \<lparr>type = Voice, content = Some (JStr ''Hello, world!''), timestamp = 300\<rparr>]"
    by (simp add: JSON_parse_sample_def spec_records_def)
  have t: "transcripts (init ''http:'' ''localhost:3000'') = []"
    by (simp add: init_def)
  have "transcripts (dispatch_all JSON_parse_sample ?msgs (init ''http:'' ''localhost:3000'')) =
          transcripts (init ''http:'' ''localhost:3000'') @
          concat (map (expected_records JSON_parse_sample) ?msgs)"
    using wf r by (rule transcript_log_of_messages)
  then have m: "transcripts (dispatch_all JSON_parse_sample ?msgs (init ''http:'' ''localhost:3000'')) =
   [\<lparr>type = Unrevised, content = Some (JStr ''hello''), timestamp = 100\<rparr>,
    \<lparr>type = Unrevised, content = Some (JStr ''world''), timestamp = 100\<rparr>,
    \<lparr>type = Revised, content = Some (JStr ''Hello, world.''), timestamp = 100\<rparr>,
    \<lparr>type = Voice, content = Some (JStr ''Hello, world!''), timestamp = 300\<rparr>]"
    by (simp only: e t append_Nil)
  show ?thesis
    by (intro conjI) (rule wf r m)+
qed

lemma foldl_append_timestamps:
  assumes "\<And>x t. g x = Inr t \<Longrightarrow> timestamp t = now"
  shows "\<exists>new. transcripts (foldl (\<lambda>s x. setTranscripts_append (g x) s) st xs) =
                  transcripts st @ new \<and>
               map timestamp new = replicate (length new) now"
proof (induction xs arbitrary: st)
  case Nil
  show ?case by simp
next
  case (Cons x xs)
  let ?st1 = "setTranscripts_append (g x) st"
  have "\<exists>n1. transcripts ?st1 = transcripts st @ n1 \<and> map timestamp n1 = replicate (length n1) now"
    using assms [of x]
    by (auto simp: setTranscripts_append_def split: option.splits sum.splits)
  then obtain n1 where n1: "transcripts ?st1 = transcripts st @ n1"
    "map timestamp n1 = replicate (length n1) now" by blast
  from Cons.IH [of ?st1] obtain n2 where
    n2: "transcripts (foldl (\<lambda>s x. setTranscripts_append (g x) s) ?st1 xs) = transcripts ?st1 @ n2"
    "map timestamp n2 = replicate (length n2) now" by blast
  have "map timestamp (n1 @ n2) = replicate (length (n1 @ n2)) now"
    using n1(2) n2(2) by (simp add: replicate_add)
  then show ?case using n1(1) n2(1)
    by (intro exI [of _ "n1 @ n2"]) simp
qed

lemma forEach_timestamps:
  assumes "\<And>x t. g x = Inr t \<Longrightarrow> timestamp t = now"
  shows "\<exists>new. transcripts (snd (forEach v (\<lambda>x. setTranscripts_append (g x)) st)) =
                  transcripts st @ new \<and>
               map timestamp new = replicate (length new) now"
proof -
  have F: "\<exists>new. transcripts (foldl (\<lambda>s x. setTranscripts_append (g x) s) st xs) =
                  transcripts st @ new \<and>
               map timestamp new = replicate (length new) now" for xs
    by (rule foldl_append_timestamps) (rule assms)
  have nil: "\<exists>new. transcripts st = transcripts st @ new \<and>
         map timestamp new = replicate (length new) now"
    by (intro exI [of _ "[]"]) simp
  show ?thesis
  proof (cases v)
    case None
    then show ?thesis using nil by simp
  next
    case (Some j)
    then show ?thesis using nil F by (cases j) simp_all
  qed
qed

lemma unrevised_record_timestamp: "unrevised_record seg now = Inr t \<Longrightarrow> timestamp t = now"
  by (auto simp: unrevised_record_def split: sum.splits)

lemma output_record_timestamp: "output_record data out now = Inr t \<Longrightarrow> timestamp t = now"
  by (auto simp: output_record_def split: sum.splits)

lemma try_timestamps:
  "\<exists>new. transcripts (snd (handleTranscriptionMessage_try JSON_parse now raw st)) =
            transcripts st @ new \<and>
         map timestamp new = replicate (length new) now"
proof -
  have nil: "\<exists>new. transcripts s = transcripts s @ new \<and>
         map timestamp new = replicate (length new) now" for s :: state
    by (intro exI [of _ "[]"]) simp
  show ?thesis
  proof (cases "JSON_parse raw")
    case None
    then show ?thesis using nil by (simp add: handleTranscriptionMessage_try_def)
  next
    case (Some data)
    show ?thesis
    proof (cases "get_prop data ''segments''")
      case (Inl e)
      then show ?thesis using nil by (simp add: handleTranscriptionMessage_try_def Some)
    next
      case (Inr segments)
      define r1 where "r1 = (if truthy segments
                      then forEach segments
                             (\<lambda>seg. setTranscripts_append (unrevised_record seg now)) st
                      else (None, st))"
      have "\<exists>n1. transcripts (snd r1) = transcripts st @ n1 \<and>
         map timestamp n1 = replicate (length n1) now"
        unfolding r1_def
        using forEach_timestamps [of "\<lambda>seg. unrevised_record seg now" now segments st,
            OF unrevised_record_timestamp] nil [of st]
        by (cases "truthy segments") simp_all
      then obtain n1 where n1: "transcripts (snd r1) = transcripts st @ n1"
         "map timestamp n1 = replicate (length n1) now" by blast
      obtain e1 st1 where r1: "r1 = (e1, st1)" by (cases r1)
      define r2 where "r2 = (case get_prop data ''llm_output'' of
                       Inl e \<Rightarrow> (Some e, st1)
                     | Inr llm_output \<Rightarrow>
                         (if truthy llm_output
                          then forEach llm_output
                                 (\<lambda>out. setTranscripts_append (output_record data out now)) st1
                          else (None, st1)))"
      have "\<exists>n2. transcripts (snd r2) = transcripts st1 @ n2 \<and>
         map timestamp n2 = replicate (length n2) now"
      proof (cases "get_prop data ''llm_output''")
        case (Inl e)
        then show ?thesis using nil [of st1] by (simp add: r2_def)
      next
        case (Inr llm)
        show ?thesis
          unfolding r2_def
          using forEach_timestamps [of "\<lambda>out. output_record data out now" now llm st1,
            OF output_record_timestamp] nil [of st1]
          by (cases "truthy llm") (simp_all add: Inr)
      qed
      then obtain n2 where n2: "transcripts (snd r2) = transcripts st1 @ n2"
         "map timestamp n2 = replicate (length n2) now" by blast
      have res: "handleTranscriptionMessage_try JSON_parse now raw st =
             (case e1 of Some e \<Rightarrow> (Some e, st1) | None \<Rightarrow> r2)"
        using r1 by (simp add: handleTranscriptionMessage_try_def Some Inr r1_def [symmetric] r2_def
            split: option.splits)
      show ?thesis
      proof (cases e1)
        case None
        have "map timestamp (n1 @ n2) = replicate (length (n1 @ n2)) now"
          using n1(2) n2(2) by (simp add: replicate_add)
        then show ?thesis using n1(1) n2(1) r1 None res
          by (intro exI [of _ "n1 @ n2"]) simp
      next
        case (Some e)
        then show ?thesis using n1 r1 res by (intro exI [of _ n1]) simp
      qed
    qed
  qed
qed

text \<open>
  Claim C9. Whatever the message, the records one call of the handler appends all carry
  the one value \<^verbatim>\<open>Date.now()\<close> returned in that call: the log afterwards is the log
  before followed by new records whose timestamps are all \<open>now\<close>.
\<close>

theorem one_timestamp_per_message:
  "\<exists>new. transcripts (snd (handleTranscriptionMessage JSON_parse now raw st)) =
            transcripts st @ new \<and>
         map timestamp new = replicate (length new) now"
proof -
  obtain e st' where r: "handleTranscriptionMessage_try JSON_parse now raw st = (e, st')"
    by (cases "handleTranscriptionMessage_try JSON_parse now raw st")
  have "transcripts (snd (handleTranscriptionMessage JSON_parse now raw st)) = transcripts st'"
    by (cases e) (simp_all add: handleTranscriptionMessage_def r)
  then show ?thesis
    using try_timestamps [of JSON_parse now raw st] r by simp
qed

section \<open>Properties of the connection manager\<close>

lemma close_fields:
  "reconnectAttemptsRef (handleWebSocketClose clo st) =
     (if reconnectAttemptsRef st < 5 then reconnectAttemptsRef st + 1 else reconnectAttemptsRef st)"
  "timeouts (handleWebSocketClose clo st) =
     (if reconnectAttemptsRef st < 5 then timeouts st @ [clo] else timeouts st)"
  "intervals (handleWebSocketClose clo st) =
     (if reconnectAttemptsRef st < 5 then intervals st else intervals st @ [clo])"
  "connectionStatus (handleWebSocketClose clo st) =
     (if reconnectAttemptsRef st < 5 then Disconnected else Polling)"
  by (simp_all add: handleWebSocketClose_def startPolling_def setConnectionStatus_def
      maxReconnectAttempts_def Let_def)

lemma error_fields:
  "reconnectAttemptsRef (handleWebSocketError clo st) = reconnectAttemptsRef st"
  "timeouts (handleWebSocketError clo st) = timeouts st"
  "intervals (handleWebSocketError clo st) = intervals st"
  "connectionStatus (handleWebSocketError clo st) = Disconnected"
  by (simp_all add: handleWebSocketError_def setConnectionStatus_def toast_def console_error_def)

lemma channel_events_snoc:
  "channel_events clo (evs @ [e]) st = on_channel_event clo e (channel_events clo evs st)"
  by (simp add: channel_events_def)

lemma closes_snoc:
  "closes (evs @ [e]) = (if e = CloseEvent then Suc (closes evs) else closes evs)"
  by (simp add: closes_def)

lemma channel_events_counts:
  assumes "reconnectAttemptsRef st = 0"
  shows "reconnectAttemptsRef (channel_events clo evs st) = min (closes evs) 5 \<and>
         length (timeouts (channel_events clo evs st)) = length (timeouts st) + min (closes evs) 5 \<and>
         length (intervals (channel_events clo evs st)) = length (intervals st) + (closes evs - 5)"
proof (induction evs rule: rev_induct)
  case Nil
  show ?case using assms by (simp add: channel_events_def closes_def)
next
  case (snoc e evs)
  show ?case
  proof (cases e)
    case CloseEvent
    then show ?thesis using snoc
      by (auto simp: channel_events_snoc closes_snoc close_fields min_def)
  next
    case ErrorEvent
    then show ?thesis using snoc
      by (simp add: channel_events_snoc closes_snoc error_fields)
  qed
qed

text \<open>
  Claim C2, as the code has it. From a state whose reconnect counter is 0 (after the mount
  or a successful open), through any run of close and error events with no open in
  between: the counter is the number of close events, capped at 5; a reconnect has been
  scheduled by each of the first five close events and by no other event; every close
  event after the fifth has started a polling interval; and one more close event leaves
  the status \<^verbatim>\<open>disconnected\<close> when fewer than five close events came before it, and
  \<^verbatim>\<open>polling\<close> otherwise. Error events count for nothing. So polling mode is entered at
  the sixth close event.
\<close>

theorem polling_after_sixth_close:
  assumes "reconnectAttemptsRef st = 0"
  shows "reconnectAttemptsRef (channel_events clo evs st) = min (closes evs) 5 \<and>
         length (timeouts (channel_events clo evs st)) = length (timeouts st) + min (closes evs) 5 \<and>
         length (intervals (channel_events clo evs st)) = length (intervals st) + (closes evs - 5) \<and>
         connectionStatus (channel_events clo (evs @ [CloseEvent]) st) =
           (if closes evs < 5 then Disconnected else Polling)"
proof -
  note c = channel_events_counts [OF assms, of clo evs]
  have "connectionStatus (channel_events clo (evs @ [CloseEvent]) st) =
           (if closes evs < 5 then Disconnected else Polling)"
    using c by (simp add: channel_events_snoc close_fields min_def)
  with c show ?thesis by simp
qed

lemma mount_fields:
  "reconnectAttemptsRef (mount (init p h)) = 0"
  "timeouts (mount (init p h)) = []"
  "intervals (mount (init p h)) = []"
  by (simp_all add: mount_def useEffect_mount_def connectWebSocket_def new_WebSocket_def
      setConnectionStatus_def init_def Let_def)

theorem polling_after_sixth_close_witness:
  "reconnectAttemptsRef (mount (init ''http:'' ''localhost:3000'')) = 0 \<and>
   length (timeouts (channel_events first_render
      [CloseEvent, ErrorEvent, CloseEvent, CloseEvent, CloseEvent, CloseEvent]
      (mount (init ''http:'' ''localhost:3000'')))) = 5 \<and>
   length (intervals (channel_events first_render
      [CloseEvent, ErrorEvent, CloseEvent, CloseEvent, CloseEvent, CloseEvent]
      (mount (init ''http:'' ''localhost:3000'')))) = 0 \<and>
   connectionStatus (channel_events first_render
      ([CloseEvent, ErrorEvent, CloseEvent, CloseEvent, CloseEvent, CloseEvent] @ [CloseEvent])
      (mount (init ''http:'' ''localhost:3000''))) = Polling"
  using polling_after_sixth_close [of "mount (init ''http:'' ''localhost:3000'')" first_render
      "[CloseEvent, ErrorEvent, CloseEvent, CloseEvent, CloseEvent, CloseEvent]"]
  by (simp add: mount_fields closes_def)

text \<open>
  Claim C2 as stated fails on the code: after exactly five close events following the
  mount the status is not \<^verbatim>\<open>polling\<close>, and the fifth of them has scheduled one more
  reconnect.
\<close>

theorem five_closes_still_reconnecting:
  "connectionStatus (channel_events first_render
      [CloseEvent, CloseEvent, CloseEvent, CloseEvent, CloseEvent]
      (mount (init ''http:'' ''localhost:3000''))) \<noteq> Polling \<and>
   length (timeouts (channel_events first_render
      [CloseEvent, CloseEvent, CloseEvent, CloseEvent, CloseEvent]
      (mount (init ''http:'' ''localhost:3000'')))) =
   Suc (length (timeouts (channel_events first_render
      [CloseEvent, CloseEvent, CloseEvent, CloseEvent]
      (mount (init ''http:'' ''localhost:3000'')))))"
  by (simp add: channel_events_def close_fields mount_fields)

text \<open>
  Claim C4 fails on the code. On a page loaded over https the mount effect sets
  \<^verbatim>\<open>isSecure\<close> to true, yet both sockets it opens have a \<^verbatim>\<open>ws://\<close> address, and so have
  the two sockets of the reconnect that follows a close: \<^verbatim>\<open>connectWebSocket\<close> reads
  \<^verbatim>\<open>isSecure\<close> from the closure of the first render, where it is false.
\<close>

theorem https_page_connects_over_ws:
  "isSecure (mount (init ''https:'' ''example.com'')) \<and>
   map url (sockets (mount (init ''https:'' ''example.com''))) =
     [''ws://example.com/api/transcription'', ''ws://example.com/api/tts''] \<and>
   map url (sockets (run B [SocketClose 0, TimeoutFires] (mount (init ''https:'' ''example.com'')))) =
     [''ws://example.com/api/transcription'', ''ws://example.com/api/tts'',
      ''ws://example.com/api/transcription'', ''ws://example.com/api/tts'']"
  by (simp add: run_def mount_def useEffect_mount_def connectWebSocket_def new_WebSocket_def
      setConnectionStatus_def init_def Let_def first_render_def handleWebSocketClose_def
      set_readyState_def maxReconnectAttempts_def)

lemma first_render_fields:
  "c_isSecure first_render = False"
  "c_connectionStatus first_render = Disconnected"
  "c_audioStream first_render = None"
  "c_streamUrl first_render = []"
  "c_isRecording first_render = False"
  by (simp_all add: first_render_def)

lemma polling_trace_state:
  "run B polling_trace (mount (init ''http:'' ''example.com'')) =
     (init ''http:'' ''example.com'')
       \<lparr>connectionStatus := Polling, audioRef := True, socketRef := Some 4,
        audioSocketRef := Some 5, reconnectAttemptsRef := 5,
        sockets :=
          [\<lparr>url = ''ws://example.com/api/transcription'', readyState = CLOSED,
             channel = Primary, handlers = first_render\<rparr>,
           \<lparr>url = ''ws://example.com/api/tts'', readyState = CLOSED,
             channel = Audio, handlers = first_render\<rparr>,
           \<lparr>url = ''ws://example.com/api/transcription'', readyState = CLOSED,
             channel = Primary, handlers = first_render\<rparr>,
           \<lparr>url = ''ws://example.com/api/tts'', readyState = CLOSED,
             channel = Audio, handlers = first_render\<rparr>,
           \<lparr>url = ''ws://example.com/api/transcription'', readyState = CLOSED,
             channel = Primary, handlers = first_render\<rparr>,
           \<lparr>url = ''ws://example.com/api/tts'', readyState = CLOSED,
             channel = Audio, handlers = first_render\<rparr>],
        timeouts := [first_render, first_render, first_render],
        intervals := [first_render]\<rparr>"
  by (simp add: polling_trace_def run_def mount_def useEffect_mount_def connectWebSocket_def
      new_WebSocket_def setConnectionStatus_def init_def Let_def handleWebSocketClose_def
      set_readyState_def maxReconnectAttempts_def startPolling_def
      first_render_fields)

section \<open>Properties of polling, teardown, streaming and playback\<close>

lemma run_append: "run B (xs @ ys) st = run B ys (run B xs st)"
  by (simp add: run_def)

lemma stub_tick:
  "startPolling_tick clo JSON_parse JSON_stringify now (JsonBody (snd transcripts_route_GET)) st =
     (if c_connectionStatus clo \<noteq> Connected
      then st\<lparr>fetches := fetches st @ [''/api/transcripts'']\<rparr> else st)"
  by (simp add: startPolling_tick_def startPolling_then_def transcripts_route_GET_def Let_def)

text \<open>
  Claim C5 fails on the code. After the sixth close event the polling interval runs; the
  next reconnect fires and its primary socket opens, so the status is \<^verbatim>\<open>connected\<close> and no
  request has been issued yet; the tick of the interval that follows issues a GET of the
  transcript endpoint. The callback tests the status of the first render's closure, which
  stays \<^verbatim>\<open>disconnected\<close>.
\<close>

theorem poll_tick_fetches_while_connected:
  "connectionStatus (run B (polling_trace @ [TimeoutFires, SocketOpen 6])
      (mount (init ''http:'' ''example.com''))) = Connected \<and>
   fetches (run B (polling_trace @ [TimeoutFires, SocketOpen 6])
      (mount (init ''http:'' ''example.com''))) = [] \<and>
   fetches (run B (polling_trace @ [TimeoutFires, SocketOpen 6,
                     IntervalTick 0 1000 (JsonBody (snd transcripts_route_GET))])
      (mount (init ''http:'' ''example.com''))) = [''/api/transcripts'']"
  by (simp add: run_append polling_trace_state stub_tick first_render_fields)
    (simp add: run_def init_def connectWebSocket_def new_WebSocket_def setConnectionStatus_def
      Let_def set_readyState_def socket_onopen_def toast_def first_render_fields stub_tick)

lemma unmount_keeps:
  "liveStreams (unmount st) = liveStreams st"
  "intervals (unmount st) = intervals st"
  "timeouts (unmount st) = timeouts st"
  "audioStream (unmount st) = audioStream st"
  "audioRef (unmount st) = False"
  by (simp_all add: unmount_def useEffect_cleanup_def stopAudioStream_def socket_close_def
      first_render_fields split: option.splits)

text \<open>
  Claim C7 fails on the code. With polling mode entered and a recording started on stream
  7, the unmount leaves the tracks of the stream live, the polling interval running and
  three reconnect timeouts pending. The cleanup calls \<^verbatim>\<open>stopAudioStream\<close> of the first
  render, whose \<^verbatim>\<open>audioStream\<close> is \<^verbatim>\<open>null\<close>; the function that clears the interval was
  dropped by \<^verbatim>\<open>handleWebSocketClose\<close>; nothing clears a timeout.
\<close>

theorem unmount_leaves_device_and_timers:
  "liveStreams (run B (polling_trace @ [ClickStartRecording (Some 7) True, Unmount])
      (mount (init ''http:'' ''example.com''))) = [7] \<and>
   length (intervals (run B (polling_trace @ [ClickStartRecording (Some 7) True, Unmount])
      (mount (init ''http:'' ''example.com'')))) = 1 \<and>
   length (timeouts (run B (polling_trace @ [ClickStartRecording (Some 7) True, Unmount])
      (mount (init ''http:'' ''example.com'')))) = 3 \<and>
   \<not> audioRef (run B (polling_trace @ [ClickStartRecording (Some 7) True, Unmount])
      (mount (init ''http:'' ''example.com'')))"
  by (simp add: run_append polling_trace_state)
    (simp add: run_def init_def unmount_keeps startRecording_def sendMessage_def
      sendMessage_post_def open_socket_def)

text \<open>
  Claim C6. Start-streaming with an empty URL shows the error toast and sends nothing.
  With a non-empty URL \<open>u\<close> it sends exactly one message, whose text is
  \<^verbatim>\<open>START_STREAMING:\<close> followed by \<open>u\<close>: over the primary socket when that is open, and
  otherwise as the \<^verbatim>\<open>message\<close> of a POST to \<^verbatim>\<open>/api/send-message\<close>.
\<close>

theorem start_streaming_message:
  "(c_streamUrl clo = [] \<longrightarrow>
      outbox (handleStartStreaming clo post_ok st) = outbox st \<and>
      toasts (handleStartStreaming clo post_ok st) =
        toasts st @ [\<lparr>title = ''Error'', description = ''Please enter a stream URL'',
                      destructive = True\<rparr>]) \<and>
   (c_streamUrl clo \<noteq> [] \<longrightarrow>
      outbox (handleStartStreaming clo post_ok st) =
        outbox st @
          [case open_socket st of
             Some i \<Rightarrow> SocketSend i (''START_STREAMING:'' @ c_streamUrl clo)
           | None \<Rightarrow> HttpPost ''/api/send-message'' (''START_STREAMING:'' @ c_streamUrl clo)] \<and>
      map payload (drop (length (outbox st)) (outbox (handleStartStreaming clo post_ok st))) =
        [''START_STREAMING:'' @ c_streamUrl clo])"
  by (auto simp: handleStartStreaming_def sendMessage_def sendMessage_post_def toast_def
      console_error_def Let_def split: option.splits)

theorem start_streaming_message_witness:
  "c_streamUrl (render (mount (init ''http:'' ''localhost:3000''))) = [] \<and>
   outbox (handleStartStreaming (render (mount (init ''http:'' ''localhost:3000''))) True
             (mount (init ''http:'' ''localhost:3000''))) = [] \<and>
   toasts (handleStartStreaming (render (mount (init ''http:'' ''localhost:3000''))) True
             (mount (init ''http:'' ''localhost:3000''))) =
     [\<lparr>title = ''Error'', description = ''Please enter a stream URL'', destructive = True\<rparr>] \<and>
   c_streamUrl (render (handleStreamUrlChange ''example.com/stream''
                  (mount (init ''http:'' ''localhost:3000'')))) \<noteq> [] \<and>
   map payload (outbox (handleStartStreaming
      (render (handleStreamUrlChange ''example.com/stream'' (mount (init ''http:'' ''localhost:3000''))))
      True
      (handleStreamUrlChange ''example.com/stream'' (mount (init ''http:'' ''localhost:3000''))))) =
     [''START_STREAMING:example.com/stream'']"
proof -
  let ?st0 = "mount (init ''http:'' ''localhost:3000'')"
  let ?st1 = "handleStreamUrlChange ''example.com/stream'' ?st0"
  have a: "c_streamUrl (render ?st0) = []" "outbox ?st0 = []" "toasts ?st0 = []"
    by (simp_all add: render_def mount_def useEffect_mount_def connectWebSocket_def
        new_WebSocket_def setConnectionStatus_def init_def Let_def)
  have b: "c_streamUrl (render ?st1) = ''example.com/stream''" "outbox ?st1 = []"
    by (simp_all add: render_def mount_def useEffect_mount_def connectWebSocket_def
        new_WebSocket_def setConnectionStatus_def init_def Let_def handleStreamUrlChange_def)
  have A: "outbox (handleStartStreaming (render ?st0) True ?st0) = [] \<and>
           toasts (handleStartStreaming (render ?st0) True ?st0) =
             [\<lparr>title = ''Error'', description = ''Please enter a stream URL'',
               destructive = True\<rparr>]"
    using start_streaming_message [of "render ?st0" True ?st0] by (simp add: a)
  have ne: "c_streamUrl (render ?st1) \<noteq> []"
    by (simp add: b(1))
  have "map payload (drop (length (outbox ?st1))
           (outbox (handleStartStreaming (render ?st1) True ?st1))) =
         [''START_STREAMING:'' @ c_streamUrl (render ?st1)]"
    by (rule start_streaming_message [of "render ?st1" True ?st1, THEN conjunct2, rule_format,
          OF ne, THEN conjunct2])
  then have B: "map payload (outbox (handleStartStreaming (render ?st1) True ?st1)) =
         [''START_STREAMING:example.com/stream'']"
    by (simp add: b)
  show ?thesis
    using A B by (simp add: a(1) b(1))
qed

text \<open>
  Claim C8, as the code has it. While the audio element is mounted, a playback request
  for \<open>u\<close> assigns \<open>u\<close> to the element, calls \<^verbatim>\<open>play\<close>, shows the error toast exactly
  when \<^verbatim>\<open>play\<close> fails, and revokes \<open>u\<close>, whether \<^verbatim>\<open>play\<close> failed or not. While there
  is no audio element the request does nothing at all.
\<close>

theorem playback_when_audio_element_mounted:
  "(audioRef st \<longrightarrow>
      audio_src (playAudio u play_ok st) = Some u \<and>
      played (playAudio u play_ok st) = played st @ [u] \<and>
      revoked (playAudio u play_ok st) = revoked st @ [u] \<and>
      toasts (playAudio u play_ok st) =
        (if play_ok then toasts st
         else toasts st @ [\<lparr>title = ''Audio Error'',
                             description = ''Failed to play audio output'',
                             destructive = True\<rparr>])) \<and>
   (\<not> audioRef st \<longrightarrow> playAudio u play_ok st = st)"
  by (simp add: playAudio_def toast_def console_error_def Let_def)

lemma mounted: "audioRef (mount (init p h))" "\<not> audioRef (unmount st)"
  "played (mount (init p h)) = []" "revoked (mount (init p h)) = []" "toasts (mount (init p h)) = []"
  by (simp_all add: mount_def unmount_def useEffect_mount_def connectWebSocket_def
        new_WebSocket_def setConnectionStatus_def init_def Let_def)

theorem playback_when_audio_element_mounted_witness:
  "audioRef (mount (init ''http:'' ''localhost:3000'')) \<and>
   audio_src (playAudio ''blob:1'' False (mount (init ''http:'' ''localhost:3000''))) = Some ''blob:1'' \<and>
   played (playAudio ''blob:1'' False (mount (init ''http:'' ''localhost:3000''))) = [''blob:1''] \<and>
   revoked (playAudio ''blob:1'' False (mount (init ''http:'' ''localhost:3000''))) = [''blob:1''] \<and>
   toasts (playAudio ''blob:1'' False (mount (init ''http:'' ''localhost:3000''))) =
     [\<lparr>title = ''Audio Error'', description = ''Failed to play audio output'',
       destructive = True\<rparr>] \<and>
   \<not> audioRef (unmount (mount (init ''http:'' ''localhost:3000''))) \<and>
   playAudio ''blob:1'' True (unmount (mount (init ''http:'' ''localhost:3000''))) =
     unmount (mount (init ''http:'' ''localhost:3000''))"
  using playback_when_audio_element_mounted
          [of "mount (init ''http:'' ''localhost:3000'')" "''blob:1''" False]
        playback_when_audio_element_mounted
          [of "unmount (mount (init ''http:'' ''localhost:3000''))" "''blob:1''" True]
  by (simp add: mounted)

text \<open>
  Claim C8 as stated fails on the code: a playback request that arrives after the
  unmount assigns nothing, plays nothing and does not release the resource.
\<close>

theorem playback_without_audio_element:
  "audio_src (playAudio ''blob:1'' True (unmount (mount (init ''http:'' ''localhost:3000'')))) = None \<and>
   played (playAudio ''blob:1'' True (unmount (mount (init ''http:'' ''localhost:3000'')))) = [] \<and>
   revoked (playAudio ''blob:1'' True (unmount (mount (init ''http:'' ''localhost:3000'')))) = []"
  by (simp add: playAudio_def mounted)
    (simp add: mount_def unmount_def useEffect_mount_def connectWebSocket_def useEffect_cleanup_def
      stopAudioStream_def socket_close_def first_render_fields
        new_WebSocket_def setConnectionStatus_def init_def Let_def)

lemma poll_against_stub_transcripts:
  "transcripts (poll_against_stub clo JSON_parse JSON_stringify nows st) = transcripts st"
  unfolding poll_against_stub_def
  by (induction nows arbitrary: st) (simp_all add: stub_tick)

text \<open>
  Claim C10. The body the stub's \<^verbatim>\<open>GET\<close> returns is an array of three entries; an array
  has neither a \<^verbatim>\<open>segments\<close> nor a \<^verbatim>\<open>llm_output\<close> property, so the polling callback
  hands nothing to the dispatcher: after any number of polling rounds against the stub
  the transcript log is what it was.
\<close>

theorem polling_stub_never_changes_log:
  "length (case snd transcripts_route_GET of JArr xs \<Rightarrow> xs | _ \<Rightarrow> []) = 3 \<and>
   get_prop (snd transcripts_route_GET) ''segments'' = Inr None \<and>
   get_prop (snd transcripts_route_GET) ''llm_output'' = Inr None \<and>
   transcripts (poll_against_stub clo JSON_parse JSON_stringify nows st) = transcripts st"
  by (simp add: poll_against_stub_transcripts) (simp add: transcripts_route_GET_def)

section \<open>The closures of a running component\<close>

text \<open>
  The effect of the mount is the only caller of \<^verbatim>\<open>connectWebSocket\<close> that is not itself a
  handler or a timer set by \<^verbatim>\<open>connectWebSocket\<close>, and it belongs to the first render. So in
  every state the component can reach, whatever the events, the sockets and timers hold
  the first render's closure and nothing else.
\<close>

lemma timers_simple:
  "timers (toast t st) = timers st"
  "timers (console_error m st) = timers st"
  "timers (setConnectionStatus c st) = timers st"
  "timers (setTranscripts_append r st) = timers st"
  "timers (handleStreamUrlChange v st) = timers st"
  "timers (stopAudioStream clo st) = timers st"
  "timers (sendMessage_post m ok st) = timers st"
  "timers (sendMessage m ok st) = timers st"
  "timers (playAudio u ok st) = timers st"
  "timers (startPolling_catch st) = timers st"
  by (simp_all add: timers_def toast_def console_error_def setConnectionStatus_def
      setTranscripts_append_def handleStreamUrlChange_def stopAudioStream_def
      sendMessage_post_def sendMessage_def playAudio_def startPolling_catch_def Let_def
      split: option.splits sum.splits)

lemma timers_foldl:
  "timers (foldl (\<lambda>s x. setTranscripts_append (g x) s) st xs) = timers st"
  by (induction xs arbitrary: st) (simp_all add: timers_simple)

lemma timers_forEach:
  "timers (snd (forEach v (\<lambda>x. setTranscripts_append (g x)) st)) = timers st"
proof (cases v)
  case None
  then show ?thesis by simp
next
  case (Some j)
  then show ?thesis by (cases j) (simp_all add: timers_foldl)
qed

lemma timers_try:
  "timers (snd (handleTranscriptionMessage_try JSON_parse now raw st)) = timers st"
proof (cases "JSON_parse raw")
  case None
  then show ?thesis by (simp add: handleTranscriptionMessage_try_def)
next
  case (Some data)
  show ?thesis
  proof (cases "get_prop data ''segments''")
    case (Inl e)
    then show ?thesis by (simp add: handleTranscriptionMessage_try_def Some)
  next
    case (Inr segments)
    define r1 where "r1 = (if truthy segments
                    then forEach segments
                           (\<lambda>seg. setTranscripts_append (unrevised_record seg now)) st
                    else (None, st))"
    have t1: "timers (snd r1) = timers st"
      unfolding r1_def
      using timers_forEach [of segments "\<lambda>seg. unrevised_record seg now" st]
      by (cases "truthy segments") simp_all
    obtain e1 st1 where r1: "r1 = (e1, st1)" by (cases r1)
    define r2 where "r2 = (case get_prop data ''llm_output'' of
                     Inl e \<Rightarrow> (Some e, st1)
                   | Inr llm_output \<Rightarrow>
                       (if truthy llm_output
                        then forEach llm_output
                               (\<lambda>out. setTranscripts_append (output_record data out now)) st1
                        else (None, st1)))"
    have t2: "timers (snd r2) = timers st1"
    proof (cases "get_prop data ''llm_output''")
      case (Inl e)
      then show ?thesis by (simp add: r2_def)
    next
      case (Inr llm)
      show ?thesis
        unfolding r2_def
        using timers_forEach [of llm "\<lambda>out. output_record data out now" st1]
        by (cases "truthy llm") (simp_all add: Inr)
    qed
    have res: "handleTranscriptionMessage_try JSON_parse now raw st =
           (case e1 of Some e \<Rightarrow> (Some e, st1) | None \<Rightarrow> r2)"
      using r1 by (simp add: handleTranscriptionMessage_try_def Some Inr r1_def [symmetric] r2_def
          split: option.splits)
    show ?thesis
      using t1 t2 r1 by (cases e1) (simp_all add: res)
  qed
qed

lemma timers_handle:
  "timers (snd (handleTranscriptionMessage JSON_parse now raw st)) = timers st"
proof -
  obtain e st' where r: "handleTranscriptionMessage_try JSON_parse now raw st = (e, st')"
    by (cases "handleTranscriptionMessage_try JSON_parse now raw st")
  have "timers (snd (handleTranscriptionMessage JSON_parse now raw st)) = timers st'"
    by (cases e) (simp_all add: handleTranscriptionMessage_def r timers_simple)
  then show ?thesis using timers_try [of JSON_parse now raw st] r by simp
qed

lemma timers_then:
  "timers (snd (startPolling_then JSON_parse JSON_stringify now data st)) = timers st"
  by (simp add: startPolling_then_def timers_handle split: sum.splits)

lemma fetches_tick:
  "fetches (startPolling_tick clo JSON_parse JSON_stringify now res st) =
     (if c_connectionStatus clo \<noteq> Connected then fetches st @ [''/api/transcripts'']
      else fetches st)"
proof (cases "c_connectionStatus clo \<noteq> Connected")
  case False
  then show ?thesis by (simp add: startPolling_tick_def)
next
  case True
  let ?st1 = "st\<lparr>fetches := fetches st @ [''/api/transcripts'']\<rparr>"
  have c: "fetches (startPolling_catch s) = fetches s" for s
    using timers_simple(10) [of s] by (simp add: timers_def)
  show ?thesis
  proof (cases res)
    case (JsonBody data)
    obtain e st2 where r: "startPolling_then JSON_parse JSON_stringify now data ?st1 = (e, st2)"
      by (cases "startPolling_then JSON_parse JSON_stringify now data ?st1")
    have "fetches st2 = fetches ?st1"
      using timers_then [of JSON_parse JSON_stringify now data ?st1] r
      by (simp add: timers_def)
    then show ?thesis using True
      by (cases e) (simp_all add: startPolling_tick_def JsonBody r c Let_def)
  qed (simp_all add: startPolling_tick_def True c Let_def)
qed


lemma inv_timers: "timers st' = timers st \<Longrightarrow> first_closure_only st' = first_closure_only st"
  by (simp add: timers_def first_closure_only_def)

lemma inv_connect:
  "first_closure_only st \<Longrightarrow> first_closure_only (connectWebSocket first_render st)"
  by (simp add: first_closure_only_def connectWebSocket_def new_WebSocket_def
      setConnectionStatus_def Let_def first_render_fields)

lemma inv_set_readyState:
  "first_closure_only st \<Longrightarrow> i < length (sockets st) \<Longrightarrow>
     first_closure_only (set_readyState i r st)"
  by (auto simp: first_closure_only_def set_readyState_def list_all_length nth_list_update)

lemma inv_socket_close:
  "first_closure_only st \<Longrightarrow> first_closure_only (socket_close r st)"
  by (auto simp: first_closure_only_def socket_close_def list_all_length nth_list_update
      split: option.splits)

lemma inv_onopen:
  "first_closure_only st \<Longrightarrow> first_closure_only (socket_onopen clo st)"
  by (simp add: first_closure_only_def socket_onopen_def toast_def setConnectionStatus_def)

lemma inv_error:
  "first_closure_only st \<Longrightarrow> first_closure_only (handleWebSocketError clo st)"
  by (simp add: first_closure_only_def handleWebSocketError_def toast_def
      setConnectionStatus_def console_error_def)

lemma inv_close:
  "first_closure_only st \<Longrightarrow> first_closure_only (handleWebSocketClose first_render st)"
  by (simp add: first_closure_only_def handleWebSocketClose_def startPolling_def
      setConnectionStatus_def Let_def)

lemma timers_tick_inv:
  "first_closure_only st \<Longrightarrow>
     first_closure_only (startPolling_tick clo JSON_parse JSON_stringify now res st)"
proof (cases "c_connectionStatus clo \<noteq> Connected")
  case False
  assume "first_closure_only st"
  with False show ?thesis by (simp add: startPolling_tick_def)
next
  case True
  assume inv: "first_closure_only st"
  let ?st1 = "st\<lparr>fetches := fetches st @ [''/api/transcripts'']\<rparr>"
  have i1: "first_closure_only ?st1" using inv by (simp add: first_closure_only_def)
  have c: "first_closure_only (startPolling_catch s) = first_closure_only s" for s
    by (rule inv_timers) (rule timers_simple)
  show ?thesis
  proof (cases res)
    case (JsonBody data)
    obtain e st2 where r: "startPolling_then JSON_parse JSON_stringify now data ?st1 = (e, st2)"
      by (cases "startPolling_then JSON_parse JSON_stringify now data ?st1")
    have "timers st2 = timers ?st1"
      using timers_then [of JSON_parse JSON_stringify now data ?st1] r by simp
    then have "first_closure_only st2" using i1 inv_timers by blast
    then show ?thesis using True
      by (cases e) (simp_all add: startPolling_tick_def JsonBody r c Let_def)
  qed (simp_all add: startPolling_tick_def True c i1 Let_def)
qed

lemma inv_ui:
  "first_closure_only st \<Longrightarrow> first_closure_only (startRecording clo granted ok st)"
  "first_closure_only st \<Longrightarrow> first_closure_only (stopRecording clo ok st)"
  "first_closure_only st \<Longrightarrow> first_closure_only (handleStartStreaming clo ok st)"
  "first_closure_only st \<Longrightarrow> first_closure_only (handleStreamUrlChange v st)"
  "first_closure_only st \<Longrightarrow> first_closure_only (handleAudioMessage mk d ok st)"
  by (simp_all add: first_closure_only_def startRecording_def stopRecording_def
      handleStartStreaming_def handleStreamUrlChange_def handleAudioMessage_def
      sendMessage_def sendMessage_post_def stopAudioStream_def playAudio_def toast_def
      console_error_def Let_def split: option.splits ws_data.splits)

lemma inv_unmount: "first_closure_only st \<Longrightarrow> first_closure_only (unmount st)"
proof -
  assume inv: "first_closure_only st"
  have "first_closure_only (socket_close (audioSocketRef st) (socket_close (socketRef st) st))"
    using inv by (intro inv_socket_close)
  moreover have "first_closure_only (stopAudioStream clo s) = first_closure_only s" for clo s
    by (rule inv_timers) (rule timers_simple)
  ultimately show ?thesis
    by (simp add: unmount_def useEffect_cleanup_def first_closure_only_def)
qed

lemma inv_step: "first_closure_only st \<Longrightarrow> first_closure_only (step B ev st)"
proof (cases ev)
  case (SocketOpen i)
  assume inv: "first_closure_only st"
  then show ?thesis
    by (simp add: SocketOpen inv_set_readyState inv_onopen split: channel.splits)
next
  case (SocketMessage i d now ok)
  assume inv: "first_closure_only st"
  have "first_closure_only (snd (handleTranscriptionMessage JSON_parse now raw st))"
    for JSON_parse raw
    using inv inv_timers [OF timers_handle] by blast
  then show ?thesis using inv
    by (simp add: SocketMessage inv_ui split: channel.splits)
next
  case (SocketError i)
  assume "first_closure_only st"
  then show ?thesis by (simp add: SocketError inv_error)
next
  case (SocketClose i)
  assume inv: "first_closure_only st"
  show ?thesis
  proof (cases "i < length (sockets st) \<and> readyState (sockets st ! i) \<noteq> CLOSED")
    case True
    then have "handlers (sockets st ! i) = first_render"
      using inv by (simp add: first_closure_only_def list_all_length)
    then show ?thesis using True inv
      by (simp add: SocketClose inv_close inv_set_readyState)
  next
    case False
    then show ?thesis using inv by (auto simp: SocketClose)
  qed
next
  case TimeoutFires
  assume inv: "first_closure_only st"
  show ?thesis
  proof (cases "timeouts st")
    case Nil
    then show ?thesis using inv by (simp add: TimeoutFires)
  next
    case (Cons clo rest)
    then have c: "clo = first_render" and "first_closure_only (st\<lparr>timeouts := rest\<rparr>)"
      using inv by (simp_all add: first_closure_only_def)
    then show ?thesis by (simp add: TimeoutFires Cons inv_connect)
  qed
next
  case (IntervalTick k now res)
  assume "first_closure_only st"
  then show ?thesis by (simp add: IntervalTick timers_tick_inv)
next
  case (ClickStartRecording g ok)
  assume "first_closure_only st"
  then show ?thesis by (simp add: ClickStartRecording inv_ui)
next
  case (ClickStopRecording ok)
  assume "first_closure_only st"
  then show ?thesis by (simp add: ClickStopRecording inv_ui)
next
  case (StreamUrlInput v)
  assume "first_closure_only st"
  then show ?thesis by (simp add: StreamUrlInput inv_ui)
next
  case (ClickStartStreaming ok)
  assume "first_closure_only st"
  then show ?thesis by (simp add: ClickStartStreaming inv_ui)
next
  case Unmount
  assume "first_closure_only st"
  then show ?thesis by (simp add: Unmount inv_unmount)
qed

lemma inv_mount: "first_closure_only (mount (init p h))"
  by (simp add: mount_def useEffect_mount_def first_closure_only_def connectWebSocket_def
      new_WebSocket_def setConnectionStatus_def init_def Let_def first_render_fields)

lemma inv_run: "first_closure_only st \<Longrightarrow> first_closure_only (run B evs st)"
  unfolding run_def by (induction evs arbitrary: st) (simp_all add: inv_step)

text \<open>
  Whatever the page's protocol, every socket ever opened has a \<^verbatim>\<open>ws://\<close> address; and
  every tick of a polling interval issues the request, whatever the status.
\<close>

lemma reachable_sockets_are_ws:
  "list_all (\<lambda>s. take 5 (url s) = ''ws://'') (sockets (run B evs (mount (init p h))))"
  using inv_run [OF inv_mount, of B evs p h]
  by (simp add: first_closure_only_def list_all_iff)

lemma reachable_tick_fetches:
  assumes "k < length (intervals (run B evs (mount (init p h))))"
  shows "fetches (step B (IntervalTick k now res) (run B evs (mount (init p h)))) =
           fetches (run B evs (mount (init p h))) @ [''/api/transcripts'']"
proof -
  have "intervals (run B evs (mount (init p h))) ! k = first_render"
    using inv_run [OF inv_mount, of B evs p h] assms
    by (simp add: first_closure_only_def list_all_length)
  then show ?thesis using assms by (simp add: fetches_tick first_render_fields)
qed


text \<open>
  A playback request can arrive when the audio element is gone: the audio socket of the
  mount is open when the primary one closes; the reconnect replaces the refs, so the
  unmount closes the new sockets and not that one; the blob it delivers next is given an
  object URL that is neither played nor revoked.
\<close>

lemma playback_request_after_unmount:
  "readyState (sockets (run B [SocketClose 0, SocketOpen 1, TimeoutFires, Unmount]
      (mount (init ''http:'' ''example.com''))) ! 1) = OPEN \<and>
   played (run B [SocketClose 0, SocketOpen 1, TimeoutFires, Unmount,
                  SocketMessage 1 (BlobData 9) 1000 True]
      (mount (init ''http:'' ''example.com''))) = [] \<and>
   revoked (run B [SocketClose 0, SocketOpen 1, TimeoutFires, Unmount,
                   SocketMessage 1 (BlobData 9) 1000 True]
      (mount (init ''http:'' ''example.com''))) = []"
  by (simp add: run_def mount_def useEffect_mount_def connectWebSocket_def new_WebSocket_def
      setConnectionStatus_def init_def Let_def first_render_fields handleWebSocketClose_def
      set_readyState_def maxReconnectAttempts_def unmount_def useEffect_cleanup_def
      socket_close_def stopAudioStream_def handleAudioMessage_def playAudio_def)

text \<open>
  A message that is JSON but not of the specified shape, here with \<^verbatim>\<open>null\<close> for a
  segment: \<^verbatim>\<open>seg.text\<close> throws in the state updater, when React renders, after the
  handler has returned.
\<close>

lemma ill_shaped_segment_fails_in_render:
  \<open>handleTranscriptionMessage JSON_parse_sample 100 ''{"segments":[null],"llm_output":["x"]}''
      (init ''http:'' ''localhost:3000'') =
    (None, (init ''http:'' ''localhost:3000'')\<lparr>renderError := Some TypeError\<rparr>)\<close>
  by (simp add: handleTranscriptionMessage_def handleTranscriptionMessage_try_def
      JSON_parse_sample_def setTranscripts_append_def unrevised_record_def output_record_def
      init_def)

end
